theory Spec2Isabelle
  imports Main
begin

section \<open>Values of the host language\<close>

text \<open>
  The library is a JavaScript module.  Its strings are sequences of code units; the
  development keeps the code units below 256 and writes them as \<^typ>\<open>char\<close>.
  A number is an integer (printed in plain decimal notation, as the language does for
  every integer of magnitude below \<open>10^21\<close>) or one of the three non-finite values;
  fractional numbers are left out.  An object is described by what the library can
  observe of it: its properties, and the outcome of coercing it to a string (the text
  \<open>[object Object]\<close> for a plain object, the wrapped primitive's text for a wrapper
  such as \<open>Object(3)\<close>, an exception when its \<open>toString\<close> throws).
\<close>

datatype error = TypeError string | SyntaxError | Thrown string

datatype number = Finite int | NaN | PosInfinity | NegInfinity

datatype val =
    Undefined
  | Null
  | Boolean bool
  | Number number
  | String string
  | Object "(string \<times> val) list" "error + string"

text \<open>
  An item of a template is a value or a function of the context.  Functions are kept
  apart from \<^typ>\<open>val\<close> because they take values as arguments.
\<close>

datatype item = Value val | Callable "val \<Rightarrow> error + val"

type_synonym evaluator = "val \<Rightarrow> error + string"

abbreviation backslash :: char where
  "backslash \<equiv> CHR 0x5C"

abbreviation dquote :: char where
  "dquote \<equiv> CHR 0x22"

abbreviation LF :: char where
  "LF \<equiv> CHR 0x0A"

abbreviation CR :: char where
  "CR \<equiv> CHR 0x0D"

fun typeof :: "val \<Rightarrow> string" where
  "typeof Undefined = ''undefined''"
| "typeof Null = ''object''"
| "typeof (Boolean b) = ''boolean''"
| "typeof (Number n) = ''number''"
| "typeof (String s) = ''string''"
| "typeof (Object props str) = ''object''"

fun ToBoolean :: "val \<Rightarrow> bool" where
  "ToBoolean Undefined = False"
| "ToBoolean Null = False"
| "ToBoolean (Boolean b) = b"
| "ToBoolean (Number n) = (n \<noteq> Finite 0 \<and> n \<noteq> NaN)"
| "ToBoolean (String s) = (s \<noteq> [])"
| "ToBoolean (Object props str) = True"

fun decimal :: "nat \<Rightarrow> string" where
  "decimal n = (if n < 10 then [''0123456789'' ! n]
                else decimal (n div 10) @ [''0123456789'' ! (n mod 10)])"

declare decimal.simps [simp del]

fun Number_toString :: "number \<Rightarrow> string" where
  "Number_toString (Finite i) = (if i < 0 then CHR ''-'' # decimal (nat (- i)) else decimal (nat i))"
| "Number_toString NaN = ''NaN''"
| "Number_toString PosInfinity = ''Infinity''"
| "Number_toString NegInfinity = ''-Infinity''"

fun ToString :: "val \<Rightarrow> error + string" where
  "ToString Undefined = Inr ''undefined''"
| "ToString Null = Inr ''null''"
| "ToString (Boolean b) = Inr (if b then ''true'' else ''false'')"
| "ToString (Number n) = Inr (Number_toString n)"
| "ToString (String s) = Inr s"
| "ToString (Object props str) = str"

text \<open>
  Reading a property: \<open>b[key]\<close>.  On \<open>undefined\<close> and \<open>null\<close> the read throws a
  type error (its message is the engine's own).  A property an object does not have reads as
  \<open>undefined\<close>.  The evaluators read properties only behind their \<open>typeof\<close> guard, so
  the primitive cases are never reached by them.
\<close>

fun get :: "val \<Rightarrow> string \<Rightarrow> error + val" where
  "get Undefined key = Inl (TypeError ''Cannot read properties of undefined'')"
| "get Null key = Inl (TypeError ''Cannot read properties of null'')"
| "get (Object props str) key = Inr (case map_of props key of None \<Rightarrow> Undefined | Some v \<Rightarrow> v)"
| "get v key = Inr Undefined"

text \<open>An array read \<open>items[index]\<close>: out of range it gives \<open>undefined\<close>.\<close>

definition item_at :: "item list \<Rightarrow> nat \<Rightarrow> item" where
  "item_at items index = (if index < length items then items ! index else Value Undefined)"

text \<open>
  The substitution \<open>${v ?? ""}\<close> of a template literal: the empty string for
  \<open>undefined\<close> and \<open>null\<close>, the string coercion of the value otherwise.
\<close>

definition interpolate :: "val \<Rightarrow> error + string" where
  "interpolate v = (if v = Undefined \<or> v = Null then Inr [] else ToString v)"

definition errMsg :: string where
  "errMsg = ''insert must be an object.''"

section \<open>The interpreted strategy\<close>

text \<open>
  What one item contributes to the result, in the order of the source's tests: nothing
  for \<open>undefined\<close> and \<open>null\<close>; an object is coerced itself; a function is called
  with the context; every other value is a key into the context.
\<close>

fun fallback_item :: "item \<Rightarrow> val \<Rightarrow> error + string" where
  "fallback_item (Value Undefined) context = Inr []"
| "fallback_item (Value Null) context = Inr []"
| "fallback_item (Value (Object props str)) context = interpolate (Object props str)"
| "fallback_item (Callable f) context =
     (case f context of Inl e \<Rightarrow> Inl e | Inr v \<Rightarrow> interpolate v)"
| "fallback_item (Value key) context =
     (case ToString key of Inl e \<Rightarrow> Inl e
      | Inr k \<Rightarrow> (case get context k of Inl e \<Rightarrow> Inl e | Inr v \<Rightarrow> interpolate v))"

text \<open>
  The \<open>reduce\<close> over the fragments; \<open>n\<close> is \<open>template.length\<close>, \<open>index\<close> the
  position of the fragment at the head of the list.
\<close>

fun fallback_reduce :: "nat \<Rightarrow> item list \<Rightarrow> val \<Rightarrow> string \<Rightarrow> nat \<Rightarrow> string list \<Rightarrow> error + string" where
  "fallback_reduce n items context result index [] = Inr result"
| "fallback_reduce n items context result index (string # strings) =
     (if int index \<noteq> int n - 1 then
        (case fallback_item (item_at items index) context of
           Inl e \<Rightarrow> Inl e
         | Inr s \<Rightarrow> fallback_reduce n items context (result @ string @ s) (Suc index) strings)
      else fallback_reduce n items context (result @ string) (Suc index) strings)"

definition bareTemplate_fallback :: "string list \<Rightarrow> item list \<Rightarrow> evaluator" where
  "bareTemplate_fallback template items = (\<lambda>context.
     if typeof context \<noteq> ''object'' then Inl (TypeError errMsg)
     else fallback_reduce (length template) items context [] 0 template)"

section \<open>The code-synthesising strategy: the program text\<close>

text \<open>
  \<open>escapeCharactersRegExp\<close> is \<open>/(`|\$)/g\<close>: it matches one backtick or one dollar
  sign.  \<open>string.replace(escapeCharactersRegExp, '\\$1')\<close> puts a backslash before
  every match and copies every other character.
\<close>

definition escapeCharactersRegExp :: "char \<Rightarrow> bool" where
  "escapeCharactersRegExp c = (c = CHR ''`'' \<or> c = CHR ''$'')"

fun replace_escapeCharacters :: "string \<Rightarrow> string" where
  "replace_escapeCharacters [] = []"
| "replace_escapeCharacters (c # cs) =
     (if escapeCharactersRegExp c then backslash # c # replace_escapeCharacters cs
      else c # replace_escapeCharacters cs)"

text \<open>
  \<open>identifierRegExp\<close> is \<open>/^[\p{IDS}$_][\p{IDC}$_]*$/u\<close>.  The two Unicode
  properties, on the code units below 256: the letters, and for \<open>ID_Continue\<close> also
  the digits, the underscore and the middle dot.
\<close>

definition ID_Start :: "char \<Rightarrow> bool" where
  "ID_Start c = (let n = (of_char c :: nat) in
     (65 \<le> n \<and> n \<le> 90) \<or> (97 \<le> n \<and> n \<le> 122) \<or> n = 170 \<or> n = 181 \<or> n = 186 \<or>
     (192 \<le> n \<and> n \<le> 214) \<or> (216 \<le> n \<and> n \<le> 246) \<or> 248 \<le> n)"

definition ID_Continue :: "char \<Rightarrow> bool" where
  "ID_Continue c = (let n = (of_char c :: nat) in
     ID_Start c \<or> (48 \<le> n \<and> n \<le> 57) \<or> n = 95 \<or> n = 183)"

definition identifier_start :: "char \<Rightarrow> bool" where
  "identifier_start c = (ID_Start c \<or> c = CHR ''$'' \<or> c = CHR ''_'')"

definition identifier_part :: "char \<Rightarrow> bool" where
  "identifier_part c = (ID_Continue c \<or> c = CHR ''$'' \<or> c = CHR ''_'')"

fun identifierRegExp_test :: "string \<Rightarrow> bool" where
  "identifierRegExp_test [] = False"
| "identifierRegExp_test (c # cs) = (identifier_start c \<and> list_all identifier_part cs)"

text \<open>
  \<open>JSON.stringify\<close> of a string quotes it: the double quote, the backslash and the
  control characters are escaped, every other character is copied.  Of a number it is the
  number's text when the number is finite, and \<open>null\<close> otherwise.
\<close>

definition hex_digit :: "nat \<Rightarrow> char" where
  "hex_digit n = ''0123456789abcdef'' ! n"

definition QuoteJSONChar :: "char \<Rightarrow> string" where
  "QuoteJSONChar c =
     (if c = CHR 0x08 then [backslash, CHR ''b'']
      else if c = CHR 0x09 then [backslash, CHR ''t'']
      else if c = LF then [backslash, CHR ''n'']
      else if c = CHR 0x0C then [backslash, CHR ''f'']
      else if c = CR then [backslash, CHR ''r'']
      else if c = dquote then [backslash, dquote]
      else if c = backslash then [backslash, backslash]
      else if (of_char c :: nat) < 32 then
        [backslash, CHR ''u'', CHR ''0'', CHR ''0'',
         hex_digit (of_char c div 16), hex_digit (of_char c mod 16)]
      else [c])"

definition QuoteJSONString :: "string \<Rightarrow> string" where
  "QuoteJSONString s = dquote # concat (map QuoteJSONChar s) @ [dquote]"

fun JSON_stringify_number :: "number \<Rightarrow> string" where
  "JSON_stringify_number (Finite i) = Number_toString (Finite i)"
| "JSON_stringify_number n = ''null''"

text \<open>
  The text a key contributes to the program: property access by name when the key's text
  passes \<open>identifierRegExp\<close>, computed access with the key's JSON text otherwise.
\<close>

definition nullish_coalesce :: string where
  "nullish_coalesce = ''??'' @ [dquote, dquote] @ ''}''"

definition key_access :: "string \<Rightarrow> string \<Rightarrow> string" where
  "key_access name json =
     ''${'' @ (if identifierRegExp_test name then ''b.'' @ name else ''b['' @ json @ '']'')
       @ nullish_coalesce"

text \<open>
  What one item adds to the body, in the order of the source's tests: nothing for
  \<open>undefined\<close> and \<open>null\<close>; \<open>a[index]\<close> for an object; a call of \<open>a[index]\<close> on
  the context for a function; an access to the context for every other value.
\<close>

fun generated_item :: "nat \<Rightarrow> item \<Rightarrow> string" where
  "generated_item index (Value Undefined) = []"
| "generated_item index (Value Null) = []"
| "generated_item index (Value (Object props str)) =
     ''${a['' @ decimal index @ '']'' @ nullish_coalesce"
| "generated_item index (Callable f) =
     ''${c=a['' @ decimal index @ ''],c(b)'' @ nullish_coalesce"
| "generated_item index (Value (Boolean t)) =
     key_access (if t then ''true'' else ''false'') (if t then ''true'' else ''false'')"
| "generated_item index (Value (Number n)) =
     key_access (Number_toString n) (JSON_stringify_number n)"
| "generated_item index (Value (String s)) = key_access s (QuoteJSONString s)"

fun generated_reduce :: "nat \<Rightarrow> item list \<Rightarrow> string \<Rightarrow> nat \<Rightarrow> string list \<Rightarrow> string" where
  "generated_reduce n items body index [] = body"
| "generated_reduce n items body index (string # strings) =
     (if int index \<noteq> int n - 1 then
        generated_reduce n items
          (body @ replace_escapeCharacters string @ generated_item index (item_at items index))
          (Suc index) strings
      else generated_reduce n items (body @ replace_escapeCharacters string) (Suc index) strings)"

definition prelude :: string where
  "prelude = ''return b=>{let c;if(typeof b!='' @ [dquote] @ ''object'' @ [dquote] @
     '')throw TypeError('' @ [dquote] @ errMsg @ [dquote] @ '');return`''"

definition generated_code :: "string list \<Rightarrow> item list \<Rightarrow> string" where
  "generated_code template items =
     generated_reduce (length template) items prelude 0 template @ ''`}''"

section \<open>The code-synthesising strategy: what the program text means\<close>

text \<open>
  \<open>Function('a', code)(items)\<close> hands the text to the host, which reads it as the body
  of a function of \<open>a\<close>.  This development gives the host's reading of the texts the
  library can build: the opening of the arrow function, its guard statement, the
  characters of a template literal with its escape sequences and line terminators, the
  substitutions of the shapes the library writes, and what follows the literal.  A text the
  host refuses is \<open>Rejected\<close> (a syntax error); a text outside the shapes read here is
  \<open>Unrecognised\<close>, and nothing is said about it.
\<close>

datatype 'a parsed = Parsed 'a string | Rejected | Unrecognised

fun prepend :: "'a list \<Rightarrow> 'a list parsed \<Rightarrow> 'a list parsed" where
  "prepend xs (Parsed ys rest) = Parsed (xs @ ys) rest"
| "prepend xs Rejected = Rejected"
| "prepend xs Unrecognised = Unrecognised"

definition decimal_digit :: "char \<Rightarrow> bool" where
  "decimal_digit c = (48 \<le> (of_char c :: nat) \<and> (of_char c :: nat) \<le> 57)"

definition hex_value :: "char \<Rightarrow> nat option" where
  "hex_value c = (let n = (of_char c :: nat) in
     if 48 \<le> n \<and> n \<le> 57 then Some (n - 48)
     else if 97 \<le> n \<and> n \<le> 102 then Some (n - 87)
     else if 65 \<le> n \<and> n \<le> 70 then Some (n - 55)
     else None)"

text \<open>
  \<open>\uXXXX\<close>, read after the \<open>u\<close>.  A code unit of 256 or more, and the form with
  braces, are outside the strings of this development.
\<close>

definition unicode_escape :: "string \<Rightarrow> string parsed" where
  "unicode_escape cs =
     (case cs of
        h1 # h2 # h3 # h4 # rest \<Rightarrow>
          (case (hex_value h1, hex_value h2, hex_value h3, hex_value h4) of
             (Some w, Some x, Some y, Some z) \<Rightarrow>
               (let n = ((16 * w + x) * 16 + y) * 16 + z
                in if n < 256 then Parsed [char_of n] rest else Unrecognised)
           | _ \<Rightarrow> if h1 = CHR ''{'' then Unrecognised else Rejected)
      | h1 # rest \<Rightarrow> if h1 = CHR ''{'' then Unrecognised else Rejected
      | [] \<Rightarrow> Rejected)"

text \<open>
  An escape sequence, read after its backslash: the characters it stands for and the rest
  of the text.  A backslash before a line terminator is a line continuation and stands for
  nothing; before any character that starts no escape it stands for that character.  An
  octal escape is a syntax error in a template literal; in a string literal it is left
  unread.
\<close>

fun escape_sequence :: "bool \<Rightarrow> string \<Rightarrow> string parsed" where
  "escape_sequence in_template [] = Rejected"
| "escape_sequence in_template (c # cs) =
     (if c = CHR ''b'' then Parsed [CHR 0x08] cs
      else if c = CHR ''t'' then Parsed [CHR 0x09] cs
      else if c = CHR ''n'' then Parsed [LF] cs
      else if c = CHR ''v'' then Parsed [CHR 0x0B] cs
      else if c = CHR ''f'' then Parsed [CHR 0x0C] cs
      else if c = CHR ''r'' then Parsed [CR] cs
      else if c = CHR ''x'' then
        (case cs of
           h # l # rest \<Rightarrow>
             (case (hex_value h, hex_value l) of
                (Some m, Some n) \<Rightarrow> Parsed [char_of (16 * m + n)] rest
              | _ \<Rightarrow> Rejected)
         | _ \<Rightarrow> Rejected)
      else if c = CHR ''u'' then unicode_escape cs
      else if decimal_digit c then
        (if c = CHR ''0'' \<and> (case cs of [] \<Rightarrow> True | d # ds \<Rightarrow> \<not> decimal_digit d)
         then Parsed [CHR 0x00] cs
         else if in_template then Rejected else Unrecognised)
      else if c = LF then Parsed [] cs
      else if c = CR then
        (case cs of [] \<Rightarrow> Parsed [] cs | d # rest \<Rightarrow> if d = LF then Parsed [] rest else Parsed [] cs)
      else Parsed [c] cs)"

lemma escape_sequence_shorter:
  "escape_sequence t cs = Parsed cooked rest \<Longrightarrow> length rest \<le> length cs"
  by (cases cs)
    (auto simp: unicode_escape_def Let_def split: if_splits list.splits option.splits)

text \<open>A string literal in double quotes, read after the opening quote.\<close>

function string_literal :: "string \<Rightarrow> string parsed" where
  "string_literal [] = Rejected"
| "string_literal (c # cs) =
     (if c = dquote then Parsed [] cs
      else if c = backslash then
        (case escape_sequence False cs of
           Parsed cooked rest \<Rightarrow> prepend cooked (string_literal rest)
         | Rejected \<Rightarrow> Rejected
         | Unrecognised \<Rightarrow> Unrecognised)
      else if c = LF \<or> c = CR then Rejected
      else prepend [c] (string_literal cs))"
  by pat_completeness auto
termination
  by (relation "measure length") (auto dest: escape_sequence_shorter)

lemma prepend_shorter:
  "prepend xs p = Parsed ys rest \<Longrightarrow> \<exists>zs. p = Parsed zs rest"
  by (cases p) auto

lemma string_literal_shorter:
  "string_literal s = Parsed k rest \<Longrightarrow> length rest \<le> length s"
proof (induction s arbitrary: k rule: string_literal.induct)
  case 1
  then show ?case by simp
next
  case (2 c cs)
  show ?case
  proof (cases "c = dquote")
    case True
    with "2.prems" show ?thesis by simp
  next
    case quote: False
    show ?thesis
    proof (cases "c = backslash")
      case True
      with quote "2.prems" obtain cooked r zs where
        e: "escape_sequence False cs = Parsed cooked r" and p: "string_literal r = Parsed zs rest"
        by (auto split: parsed.splits dest: prepend_shorter)
      from "2.IH"(1) [OF quote True e p] escape_sequence_shorter [OF e] show ?thesis by simp
    next
      case False
      with quote "2.prems" have nl: "\<not> (c = LF \<or> c = CR)" by (auto split: if_splits)
      with quote False "2.prems" obtain zs where "string_literal cs = Parsed zs rest"
        by (auto dest: prepend_shorter)
      from "2.IH"(2) [OF quote False nl this] show ?thesis by simp
    qed
  qed
qed

text \<open>\<open>after p s\<close>: the text \<open>s\<close> without its prefix \<open>p\<close>, when it starts with \<open>p\<close>.\<close>

definition after :: "string \<Rightarrow> string \<Rightarrow> string option" where
  "after p s = (if take (length p) s = p then Some (drop (length p) s) else None)"

fun natural :: "nat \<Rightarrow> string \<Rightarrow> nat \<times> string" where
  "natural n [] = (n, [])"
| "natural n (c # cs) =
     (if decimal_digit c then natural (10 * n + (of_char c - 48)) cs else (n, c # cs))"

text \<open>
  A decimal integer literal: \<open>0\<close>, or digits that do not start with \<open>0\<close> (a literal
  with a leading zero is octal in this language, and left unread).
\<close>

definition decimal_literal :: "string \<Rightarrow> (nat \<times> string) option" where
  "decimal_literal s =
     (case s of
        [] \<Rightarrow> None
      | c # cs \<Rightarrow>
          if \<not> decimal_digit c then None
          else if c = CHR ''0'' then
            (case cs of [] \<Rightarrow> Some (0, cs) | d # ds \<Rightarrow> if decimal_digit d then None else Some (0, cs))
          else Some (natural 0 s))"

definition identifier_name :: "string \<Rightarrow> (string \<times> string) option" where
  "identifier_name s =
     (case s of
        [] \<Rightarrow> None
      | c # cs \<Rightarrow>
          if identifier_start c
          then Some (c # takeWhile identifier_part cs, dropWhile identifier_part cs)
          else None)"

text \<open>
  The expression between \<open>b[\<close> and \<open>]\<close>, as the property key it denotes: a string
  literal, \<open>null\<close>, or a decimal integer with or without a minus sign.
\<close>

definition computed_key :: "string \<Rightarrow> string parsed" where
  "computed_key s =
     (case s of
        [] \<Rightarrow> Unrecognised
      | c # cs \<Rightarrow>
          if c = dquote then string_literal cs
          else if c = CHR ''-'' then
            (case decimal_literal cs of
               Some (n, rest) \<Rightarrow> Parsed (Number_toString (Finite (- int n))) rest
             | None \<Rightarrow> Unrecognised)
          else
            (case after ''null'' s of
               Some rest \<Rightarrow> Parsed ''null'' rest
             | None \<Rightarrow>
                 (case decimal_literal s of
                    Some (n, rest) \<Rightarrow> Parsed (Number_toString (Finite (int n))) rest
                  | None \<Rightarrow> Unrecognised)))"

text \<open>
  A substitution of a template literal, with the reads of \<open>a\<close> already made: \<open>a\<close> is
  bound once, when the synthesised function is applied to the items, and never assigned.
  Coercing a function to a string gives its source text, which is not part of this
  development.
\<close>

datatype hole =
    Literal val
  | Call "val \<Rightarrow> error + val"
  | NotCallable
  | Member string

datatype part = Cooked char | Hole hole

text \<open>
  The four shapes, read after \<open>${\<close> up to and with the closing brace:
  \<open>a[n]??""}\<close>, \<open>c=a[n],c(b)??""}\<close>, \<open>b.name??""}\<close> and \<open>b[key]??""}\<close>.
\<close>

definition substitution :: "item list \<Rightarrow> string \<Rightarrow> hole parsed" where
  "substitution a s =
     (case after ''a['' s of
        Some s1 \<Rightarrow>
          (case decimal_literal s1 of
             Some (n, s2) \<Rightarrow>
               (case after ('']'' @ nullish_coalesce) s2 of
                  Some rest \<Rightarrow>
                    (case item_at a n of
                       Value v \<Rightarrow> Parsed (Literal v) rest
                     | Callable f \<Rightarrow> Unrecognised)
                | None \<Rightarrow> Unrecognised)
           | None \<Rightarrow> Unrecognised)
      | None \<Rightarrow>
     (case after ''c=a['' s of
        Some s1 \<Rightarrow>
          (case decimal_literal s1 of
             Some (n, s2) \<Rightarrow>
               (case after (''],c(b)'' @ nullish_coalesce) s2 of
                  Some rest \<Rightarrow>
                    Parsed (case item_at a n of Callable f \<Rightarrow> Call f | Value v \<Rightarrow> NotCallable) rest
                | None \<Rightarrow> Unrecognised)
           | None \<Rightarrow> Unrecognised)
      | None \<Rightarrow>
     (case after ''b.'' s of
        Some s1 \<Rightarrow>
          (case identifier_name s1 of
             Some (name, s2) \<Rightarrow>
               (case after nullish_coalesce s2 of
                  Some rest \<Rightarrow> Parsed (Member name) rest
                | None \<Rightarrow> Unrecognised)
           | None \<Rightarrow> Unrecognised)
      | None \<Rightarrow>
     (case after ''b['' s of
        Some s1 \<Rightarrow>
          (case computed_key s1 of
             Parsed key s2 \<Rightarrow>
               (case after ('']'' @ nullish_coalesce) s2 of
                  Some rest \<Rightarrow> Parsed (Member key) rest
                | None \<Rightarrow> Unrecognised)
           | Rejected \<Rightarrow> Rejected
           | Unrecognised \<Rightarrow> Unrecognised)
      | None \<Rightarrow> Unrecognised))))"

lemma after_shorter: "after p s = Some rest \<Longrightarrow> length rest \<le> length s"
  by (auto simp: after_def split: if_splits)

lemma natural_shorter: "natural n s = (m, rest) \<Longrightarrow> length rest \<le> length s"
proof (induction s arbitrary: n)
  case Nil
  then show ?case by simp
next
  case (Cons c cs)
  show ?case
  proof (cases "decimal_digit c")
    case True
    with Cons.prems have "natural (10 * n + (of_char c - 48)) cs = (m, rest)" by simp
    from Cons.IH [OF this] show ?thesis by simp
  next
    case False
    with Cons.prems show ?thesis by auto
  qed
qed

lemma decimal_literal_shorter: "decimal_literal s = Some (n, rest) \<Longrightarrow> length rest \<le> length s"
  by (cases s) (auto simp: decimal_literal_def split: if_splits list.splits dest: natural_shorter)

lemma identifier_name_shorter: "identifier_name s = Some (name, rest) \<Longrightarrow> length rest \<le> length s"
  by (cases s) (auto simp: identifier_name_def le_SucI length_dropWhile_le split: if_splits)

lemma computed_key_shorter: "computed_key s = Parsed key rest \<Longrightarrow> length rest \<le> length s"
  by (cases s)
    (auto simp: computed_key_def split: if_splits option.splits
      dest!: string_literal_shorter decimal_literal_shorter after_shorter)

lemma substitution_shorter: "substitution a s = Parsed h rest \<Longrightarrow> length rest \<le> length s"
  unfolding substitution_def
  by (auto split: option.splits item.splits parsed.splits
      dest!: after_shorter decimal_literal_shorter identifier_name_shorter computed_key_shorter)

text \<open>
  A template literal, read after its opening backtick, up to and with the closing one.
  A backslash starts an escape sequence, a dollar sign before a brace starts a
  substitution, a carriage return (alone or before a line feed) is read as a line feed, and
  every other character stands for itself.  A text that ends inside the literal is
  refused.
\<close>

function template_literal :: "item list \<Rightarrow> string \<Rightarrow> part list parsed" where
  "template_literal a [] = Rejected"
| "template_literal a (c # cs) =
     (if c = CHR ''`'' then Parsed [] cs
      else if c = CHR ''$'' \<and> take 1 cs = ''{'' then
        (case substitution a (drop 1 cs) of
           Parsed h rest \<Rightarrow> prepend [Hole h] (template_literal a rest)
         | Rejected \<Rightarrow> Rejected
         | Unrecognised \<Rightarrow> Unrecognised)
      else if c = backslash then
        (case escape_sequence True cs of
           Parsed cooked rest \<Rightarrow> prepend (map Cooked cooked) (template_literal a rest)
         | Rejected \<Rightarrow> Rejected
         | Unrecognised \<Rightarrow> Unrecognised)
      else if c = CR then
        prepend [Cooked LF] (template_literal a (if take 1 cs = [LF] then drop 1 cs else cs))
      else prepend [Cooked c] (template_literal a cs))"
  by pat_completeness auto
termination
  by (relation "measure (\<lambda>(a, s). length s)")
    (auto dest!: escape_sequence_shorter substitution_shorter)

text \<open>
  The value of a template literal for the context \<open>b\<close>, from left to right; the first
  exception ends it.
\<close>

fun hole_value :: "val \<Rightarrow> hole \<Rightarrow> error + val" where
  "hole_value b (Literal v) = Inr v"
| "hole_value b (Call c) = c b"
| "hole_value b NotCallable = Inl (TypeError ''c is not a function'')"
| "hole_value b (Member key) = get b key"

fun template_value :: "val \<Rightarrow> part list \<Rightarrow> error + string" where
  "template_value b [] = Inr []"
| "template_value b (Cooked c # parts) =
     (case template_value b parts of Inl e \<Rightarrow> Inl e | Inr s \<Rightarrow> Inr (c # s))"
| "template_value b (Hole h # parts) =
     (case hole_value b h of
        Inl e \<Rightarrow> Inl e
      | Inr v \<Rightarrow>
          (case interpolate v of
             Inl e \<Rightarrow> Inl e
           | Inr s \<Rightarrow> (case template_value b parts of Inl e \<Rightarrow> Inl e | Inr r \<Rightarrow> Inr (s @ r))))"

text \<open>
  The statement \<open>if(typeof b!="name")throw TypeError("message");\<close>, where the text
  starts with one: the type name and the message it holds.  A text that starts otherwise
  has no such statement.
\<close>

definition guard_statement :: "string \<Rightarrow> (string \<times> string) option parsed" where
  "guard_statement s =
     (case after (''if(typeof b!='' @ [dquote]) s of
        None \<Rightarrow> Parsed None s
      | Some s1 \<Rightarrow>
          (case string_literal s1 of
             Rejected \<Rightarrow> Rejected
           | Unrecognised \<Rightarrow> Unrecognised
           | Parsed name s2 \<Rightarrow>
               (case after ('')throw TypeError('' @ [dquote]) s2 of
                  None \<Rightarrow> Unrecognised
                | Some s3 \<Rightarrow>
                    (case string_literal s3 of
                       Rejected \<Rightarrow> Rejected
                     | Unrecognised \<Rightarrow> Unrecognised
                     | Parsed message s4 \<Rightarrow>
                         (case after '');'' s4 of
                            None \<Rightarrow> Unrecognised
                          | Some rest \<Rightarrow> Parsed (Some (name, message)) rest)))))"

text \<open>
  A function body behind the statement: the type error for a context of another type, the
  body otherwise.  With no statement it is the body alone.
\<close>

definition guarded :: "(string \<times> string) option \<Rightarrow> evaluator \<Rightarrow> evaluator" where
  "guarded guard body =
     (case guard of
        None \<Rightarrow> body
      | Some (name, message) \<Rightarrow>
          (\<lambda>b. if typeof b \<noteq> name then Inl (TypeError message) else body b))"

text \<open>
  What compiling gives: an evaluator, an exception, or a program text this development
  does not read.
\<close>

datatype compiled = Evaluator evaluator | Raises error | Unmodelled

text \<open>
  The value the synthesised function returns, from the text after the template literal.
  A closing brace alone ends the arrow function \<open>b=>{...}\<close>, and that function is
  returned.  A closing brace, a comma and a second arrow function \<open>b=>"text"\<close> before a
  line comment that runs to the end of the text make a comma expression: the value
  returned is the second function, which tests nothing and returns its text.
\<close>

definition returned :: "(string \<times> string) option \<Rightarrow> part list \<Rightarrow> string \<Rightarrow> compiled" where
  "returned guard parts rest =
     (if rest = ''}'' then Evaluator (guarded guard (\<lambda>b. template_value b parts))
      else
        (case after (''},b=>'' @ [dquote]) rest of
           None \<Rightarrow> Unmodelled
         | Some s1 \<Rightarrow>
             (case string_literal s1 of
                Rejected \<Rightarrow> Raises SyntaxError
              | Unrecognised \<Rightarrow> Unmodelled
              | Parsed text s2 \<Rightarrow>
                  (case after ''//'' s2 of
                     None \<Rightarrow> Unmodelled
                   | Some comment \<Rightarrow>
                       if list_all (\<lambda>c. c \<noteq> LF \<and> c \<noteq> CR) comment
                       then Evaluator (\<lambda>b. Inr text)
                       else Unmodelled))))"

text \<open>
  \<open>Function('a', code)(a)\<close>: the text is read as \<open>return b=>{let c;\<close>, the guard
  statement if there is one, \<open>return\<close> with a template literal, and what follows the
  literal.
\<close>

definition js_Function :: "string \<Rightarrow> item list \<Rightarrow> compiled" where
  "js_Function code a =
     (case after ''return b=>{let c;'' code of
        None \<Rightarrow> Unmodelled
      | Some s1 \<Rightarrow>
          (case guard_statement s1 of
             Rejected \<Rightarrow> Raises SyntaxError
           | Unrecognised \<Rightarrow> Unmodelled
           | Parsed guard s2 \<Rightarrow>
               (case after ''return`'' s2 of
                  None \<Rightarrow> Unmodelled
                | Some literal \<Rightarrow>
                    (case template_literal a literal of
                       Rejected \<Rightarrow> Raises SyntaxError
                     | Unrecognised \<Rightarrow> Unmodelled
                     | Parsed parts rest \<Rightarrow> returned guard parts rest))))"

definition bareTemplate_generated :: "string list \<Rightarrow> item list \<Rightarrow> compiled" where
  "bareTemplate_generated template items = js_Function (generated_code template items) items"

section \<open>The module\<close>

text \<open>
  The strategy is chosen once, when the module is loaded: the probe \<open>Function()\<close>
  succeeds, or throws an \<open>EvalError\<close> where the host forbids code synthesis.
\<close>

definition bareTemplate :: "bool \<Rightarrow> string list \<Rightarrow> item list \<Rightarrow> compiled" where
  "bareTemplate synthesis template items =
     (if synthesis then bareTemplate_generated template items
      else Evaluator (bareTemplate_fallback template items))"

text \<open>The tag function \<open>template\<close>; \<open>new_target\<close> says that it was called with \<open>new\<close>.\<close>

definition template :: "bool \<Rightarrow> bool \<Rightarrow> string list \<Rightarrow> item list \<Rightarrow> compiled" where
  "template synthesis new_target strings items =
     (if new_target then Raises (TypeError ''Illegal constructor.'')
      else bareTemplate synthesis strings items)"

text \<open>Applying what compiling gave to a context.\<close>

datatype outcome = Returns string | Throws error | NotModelled

fun render :: "compiled \<Rightarrow> val \<Rightarrow> outcome" where
  "render (Evaluator e) context = (case e context of Inl err \<Rightarrow> Throws err | Inr s \<Rightarrow> Returns s)"
| "render (Raises err) context = Throws err"
| "render Unmodelled context = NotModelled"

text \<open>
  The method \<open>if\<close> of a template.  Its receiver and its last two arguments are a
  function, a string, or left out (\<open>undefined\<close>); its condition is any value, read
  for its truth.
\<close>

datatype argument = Omitted | Text string | Function evaluator

datatype if_result =
    Template evaluator
  | TagFunction "string list \<Rightarrow> item list \<Rightarrow> compiled"

text \<open>
  \<open>nextReducer => cond ? (insert => this(insert) + delimiter + nextReducer(insert)) : this\<close>
\<close>

definition reduce :: "evaluator \<Rightarrow> val \<Rightarrow> string \<Rightarrow> evaluator \<Rightarrow> evaluator" where
  "reduce this cond delimiter nextReducer =
     (if ToBoolean cond then
        (\<lambda>context.
           case this context of
             Inl e \<Rightarrow> Inl e
           | Inr s \<Rightarrow> (case nextReducer context of Inl e \<Rightarrow> Inl e | Inr t \<Rightarrow> Inr (s @ delimiter @ t)))
      else this)"

text \<open>
  \<open>(...args) => reduce(bareTemplate(...args))\<close>: the argument of \<open>reduce\<close> is evaluated
  before \<open>reduce\<close> is entered, so an exception of the compiler is the call's.
\<close>

definition if_tag :: "bool \<Rightarrow> evaluator \<Rightarrow> val \<Rightarrow> string \<Rightarrow> string list \<Rightarrow> item list \<Rightarrow> compiled" where
  "if_tag synthesis this cond delimiter strings items =
     (case bareTemplate synthesis strings items of
        Evaluator nextReducer \<Rightarrow> Evaluator (reduce this cond delimiter nextReducer)
      | Raises e \<Rightarrow> Raises e
      | Unmodelled \<Rightarrow> Unmodelled)"

definition template_if :: "bool \<Rightarrow> argument \<Rightarrow> val \<Rightarrow> argument \<Rightarrow> argument \<Rightarrow> error + if_result" where
  "template_if synthesis this cond delimiter callback =
     (case this of
        Function self \<Rightarrow>
          (let delimiter = (case delimiter of Omitted \<Rightarrow> Text '' '' | given \<Rightarrow> given);
               callback = (case delimiter of Function f \<Rightarrow> delimiter | other \<Rightarrow> callback);
               delimiter = (case delimiter of Function f \<Rightarrow> '' '' | Text d \<Rightarrow> d | Omitted \<Rightarrow> '' '')
           in case callback of
                Function nextReducer \<Rightarrow> Inr (Template (reduce self cond delimiter nextReducer))
              | other \<Rightarrow> Inr (TagFunction (if_tag synthesis self cond delimiter)))
      | other \<Rightarrow> Inl (TypeError ''this must be callable.''))"

text \<open>The object \<open>{...}\<close> with the given properties, and the wrapper \<open>Object(v)\<close> of a primitive.\<close>

definition object :: "(string \<times> val) list \<Rightarrow> val" where
  "object props = Object props (Inr ''[object Object]'')"

definition wrapper :: "val \<Rightarrow> val" where
  "wrapper v = Object [] (ToString v)"

section \<open>The parts the library means\<close>

text \<open>The parts of a template literal an item stands for.\<close>

fun item_parts :: "item \<Rightarrow> part list" where
  "item_parts (Value Undefined) = []"
| "item_parts (Value Null) = []"
| "item_parts (Value (Object props str)) = [Hole (Literal (Object props str))]"
| "item_parts (Callable f) = [Hole (Call f)]"
| "item_parts (Value (Boolean t)) = [Hole (Member (if t then ''true'' else ''false''))]"
| "item_parts (Value (Number n)) = [Hole (Member (Number_toString n))]"
| "item_parts (Value (String s)) = [Hole (Member s)]"

text \<open>
  The parts the fragments and items stand for, in the order of the \<open>reduce\<close>.
\<close>

fun template_parts :: "nat \<Rightarrow> item list \<Rightarrow> nat \<Rightarrow> string list \<Rightarrow> part list" where
  "template_parts n items index [] = []"
| "template_parts n items index (string # strings) =
     map Cooked string @
     (if int index \<noteq> int n - 1 then item_parts (item_at items index) else []) @
     template_parts n items (Suc index) strings"

section \<open>Reading back what the library wrote\<close>

text \<open>
  The program text the library writes is read back by the host as the library means it,
  piece by piece: a fragment, an index, a key, a whole substitution, the whole body.
\<close>

lemma guard_statement_prelude:
  "guard_statement (''if(typeof b!='' @ [dquote] @ ''object'' @ [dquote] @
       '')throw TypeError('' @ [dquote] @ errMsg @ [dquote] @ '');return`'' @ literal) =
     Parsed (Some (''object'', errMsg)) (''return`'' @ literal)"
  by (simp add: guard_statement_def after_def errMsg_def)

lemma js_Function_prelude:
  "js_Function (prelude @ literal) a =
     (case template_literal a literal of
        Rejected \<Rightarrow> Raises SyntaxError
      | Unrecognised \<Rightarrow> Unmodelled
      | Parsed parts rest \<Rightarrow> returned (Some (''object'', errMsg)) parts rest)"
proof -
  have "after ''return b=>{let c;'' (prelude @ literal) =
      Some (''if(typeof b!='' @ [dquote] @ ''object'' @ [dquote] @
        '')throw TypeError('' @ [dquote] @ errMsg @ [dquote] @ '');return`'' @ literal)"
    by (simp add: after_def prelude_def)
  moreover have "after ''return`'' (''return`'' @ literal) = Some literal"
    by (simp add: after_def)
  ultimately show ?thesis
    by (simp only: js_Function_def guard_statement_prelude option.case parsed.case)
qed

lemma returned_brace:
  "returned (Some (''object'', errMsg)) parts ''}'' =
     Evaluator (\<lambda>b. if typeof b \<noteq> ''object'' then Inl (TypeError errMsg)
                    else template_value b parts)"
  by (simp add: returned_def guarded_def)

lemma prepend_Nil: "prepend [] p = p"
  by (cases p) simp_all

lemma prepend_prepend: "prepend xs (prepend ys p) = prepend (xs @ ys) p"
  by (cases p) simp_all

lemma replace_escapeCharacters_concat:
  "replace_escapeCharacters s =
     concat (map (\<lambda>c. if c = CHR ''`'' \<or> c = CHR ''$'' then [backslash, c] else [c]) s)"
  by (induction s) (simp_all add: escapeCharactersRegExp_def)

lemma escape_backtick: "escape_sequence True (CHR ''`'' # cs) = Parsed [CHR ''`''] cs"
  by (simp add: decimal_digit_def)

lemma escape_dollar: "escape_sequence True (CHR ''$'' # cs) = Parsed [CHR ''$''] cs"
  by (simp add: decimal_digit_def)

lemma template_literal_backslash:
  "template_literal a (backslash # cs) =
     (case escape_sequence True cs of
        Parsed cooked rest \<Rightarrow> prepend (map Cooked cooked) (template_literal a rest)
      | Rejected \<Rightarrow> Rejected
      | Unrecognised \<Rightarrow> Unrecognised)"
  by (subst template_literal.simps) simp

lemma template_literal_plain:
  assumes "c \<noteq> CHR ''`''" "c \<noteq> CHR ''$''" "c \<noteq> backslash" "c \<noteq> CR"
  shows "template_literal a (c # cs) = prepend [Cooked c] (template_literal a cs)"
  by (subst template_literal.simps) (simp add: assms)

text \<open>
  An escaped fragment with no backslash and no carriage return of its own is read back
  as itself, whatever text follows it.
\<close>

lemma template_literal_fragment:
  assumes "backslash \<notin> set s" and "CR \<notin> set s"
  shows "template_literal a (replace_escapeCharacters s @ rest) =
           prepend (map Cooked s) (template_literal a rest)"
  using assms
proof (induction s)
  case Nil
  show ?case by (simp add: prepend_Nil)
next
  case (Cons c cs)
  from Cons.prems have c: "c \<noteq> backslash" "c \<noteq> CR"
    and cs: "backslash \<notin> set cs" "CR \<notin> set cs"
    by auto
  note IH = Cons.IH [OF cs]
  consider (tick) "c = CHR ''`''" | (dollar) "c = CHR ''$''" | (plain) "c \<noteq> CHR ''`''" "c \<noteq> CHR ''$''"
    by blast
  then show ?case
  proof cases
    case tick
    have "replace_escapeCharacters (c # cs) @ rest = backslash # CHR ''`'' # (replace_escapeCharacters cs @ rest)"
      by (simp add: tick escapeCharactersRegExp_def)
    then show ?thesis
      by (simp only: template_literal_backslash escape_backtick parsed.case IH prepend_prepend)
        (simp add: tick)
  next
    case dollar
    have "replace_escapeCharacters (c # cs) @ rest = backslash # CHR ''$'' # (replace_escapeCharacters cs @ rest)"
      by (simp add: dollar escapeCharactersRegExp_def)
    then show ?thesis
      by (simp only: template_literal_backslash escape_dollar parsed.case IH prepend_prepend)
        (simp add: dollar)
  next
    case plain
    have "replace_escapeCharacters (c # cs) @ rest = c # (replace_escapeCharacters cs @ rest)"
      using plain by (simp add: escapeCharactersRegExp_def)
    then show ?thesis
      by (simp only: template_literal_plain [OF plain c] IH prepend_prepend) simp
  qed
qed

subsection \<open>Indices and number keys\<close>

lemma decimal_digit_nth:
  assumes "n < 10"
  shows "decimal_digit (''0123456789'' ! n) \<and> (of_char (''0123456789'' ! n) :: nat) = 48 + n"
proof -
  have "list_all (\<lambda>k. decimal_digit (''0123456789'' ! k) \<and>
      (of_char (''0123456789'' ! k) :: nat) = 48 + k) [0..<10]"
    by code_simp
  with assms show ?thesis
    by (simp add: list_all_iff)
qed

lemma natural_decimal:
  "natural m (decimal n @ rest) = natural (m * 10 ^ length (decimal n) + n) rest"
proof (induction n arbitrary: m rest rule: decimal.induct)
  case (1 n)
  show ?case
  proof (cases "n < 10")
    case True
    then show ?thesis
      using decimal_digit_nth [OF True] by (simp add: decimal.simps [of n] mult.commute)
  next
    case False
    then have d: "n mod 10 < 10" by simp
    have "decimal n = decimal (n div 10) @ [''0123456789'' ! (n mod 10)]"
      using False by (subst decimal.simps) simp
    then have "natural m (decimal n @ rest) =
        natural m (decimal (n div 10) @ (''0123456789'' ! (n mod 10)) # rest)"
      by simp
    also have "\<dots> = natural (m * 10 ^ length (decimal (n div 10)) + n div 10)
        ((''0123456789'' ! (n mod 10)) # rest)"
      using "1.IH" [OF False] by simp
    also have "\<dots> = natural (10 * (m * 10 ^ length (decimal (n div 10)) + n div 10) + n mod 10) rest"
      using decimal_digit_nth [OF d] by simp
    also have "10 * (m * 10 ^ length (decimal (n div 10)) + n div 10) + n mod 10 =
        m * 10 ^ length (decimal n) + n"
      using False by (simp add: decimal.simps [of n] algebra_simps)
    finally show ?thesis .
  qed
qed

lemma decimal_head:
  "\<exists>c cs. decimal n = c # cs \<and> decimal_digit c \<and> (c = CHR ''0'' \<longrightarrow> n = 0 \<and> cs = [])"
proof (induction n rule: decimal.induct)
  case (1 n)
  show ?case
  proof (cases "n < 10")
    case True
    have "decimal n = [''0123456789'' ! n]"
      using True by (simp add: decimal.simps [of n])
    moreover have "''0123456789'' ! n = CHR ''0'' \<longrightarrow> n = 0"
      using decimal_digit_nth [OF True] by auto
    ultimately show ?thesis
      using decimal_digit_nth [OF True] by simp
  next
    case False
    from "1.IH" [OF False] obtain c cs where
      h: "decimal (n div 10) = c # cs" "decimal_digit c" "c = CHR ''0'' \<longrightarrow> n div 10 = 0 \<and> cs = []"
      by blast
    from False have "n div 10 \<noteq> 0" by simp
    with h False show ?thesis
      by (subst decimal.simps) auto
  qed
qed

lemma decimal_literal_decimal:
  assumes "\<And>d ds. rest = d # ds \<Longrightarrow> \<not> decimal_digit d"
  shows "decimal_literal (decimal n @ rest) = Some (n, rest)"
proof -
  obtain c cs where h: "decimal n = c # cs" "decimal_digit c" "c = CHR ''0'' \<longrightarrow> n = 0 \<and> cs = []"
    using decimal_head by blast
  have stop: "natural k rest = (k, rest)" for k
    using assms by (cases rest) auto
  show ?thesis
  proof (cases "c = CHR ''0''")
    case True
    with h assms show ?thesis
      by (cases rest) (auto simp: decimal_literal_def)
  next
    case False
    with h have "decimal_literal (decimal n @ rest) = Some (natural 0 (decimal n @ rest))"
      by (simp add: decimal_literal_def)
    then show ?thesis
      by (simp add: natural_decimal stop)
  qed
qed

subsection \<open>String keys\<close>

lemma string_literal_backslash:
  "string_literal (backslash # cs) =
     (case escape_sequence False cs of
        Parsed cooked rest \<Rightarrow> prepend cooked (string_literal rest)
      | Rejected \<Rightarrow> Rejected
      | Unrecognised \<Rightarrow> Unrecognised)"
  by (subst string_literal.simps) simp

lemma string_literal_plain:
  assumes "c \<noteq> dquote" "c \<noteq> backslash" "c \<noteq> LF" "c \<noteq> CR"
  shows "string_literal (c # cs) = prepend [c] (string_literal cs)"
  by (subst string_literal.simps) (simp add: assms)

lemma hex_value_hex_digit:
  assumes "n < 16"
  shows "hex_value (hex_digit n) = Some n"
proof -
  have "list_all (\<lambda>k. hex_value (hex_digit k) = Some k) [0..<16]"
    by code_simp
  with assms show ?thesis
    by (simp add: list_all_iff)
qed

lemma escape_sequence_control:
  assumes "(of_char c :: nat) < 32"
  shows "escape_sequence t
      (CHR ''u'' # CHR ''0'' # CHR ''0'' # hex_digit (of_char c div 16) # hex_digit (of_char c mod 16) # cs)
    = Parsed [c] cs"
proof -
  have hi: "hex_value (hex_digit (of_char c div 16)) = Some (of_char c div 16)"
    using assms by (intro hex_value_hex_digit) simp
  have lo: "hex_value (hex_digit (of_char c mod 16)) = Some (of_char c mod 16)"
    by (intro hex_value_hex_digit) simp
  have zero: "hex_value CHR ''0'' = Some 0"
    by (simp add: hex_value_def)
  have small: "(of_char c :: nat) < 256"
    using assms by simp
  have same: "char_of (of_char c :: nat) = c"
    by simp
  show ?thesis
    using small by (simp add: unicode_escape_def hi lo zero same)
qed

lemma string_literal_QuoteJSONChar:
  "string_literal (QuoteJSONChar c @ rest) = prepend [c] (string_literal rest)"
proof -
  consider (named) "c = CHR 0x08 \<or> c = CHR 0x09 \<or> c = LF \<or> c = CHR 0x0C \<or> c = CR \<or> c = dquote \<or> c = backslash"
    | (control) "c \<noteq> CHR 0x08" "c \<noteq> CHR 0x09" "c \<noteq> LF" "c \<noteq> CHR 0x0C" "c \<noteq> CR" "c \<noteq> dquote"
        "c \<noteq> backslash" "(of_char c :: nat) < 32"
    | (plain) "c \<noteq> CHR 0x08" "c \<noteq> CHR 0x09" "c \<noteq> LF" "c \<noteq> CHR 0x0C" "c \<noteq> CR" "c \<noteq> dquote"
        "c \<noteq> backslash" "\<not> (of_char c :: nat) < 32"
    by blast
  then show ?thesis
  proof cases
    case named
    then show ?thesis
      by (elim disjE) (simp_all add: QuoteJSONChar_def string_literal_backslash decimal_digit_def)
  next
    case control
    then have "QuoteJSONChar c @ rest = backslash # CHR ''u'' # CHR ''0'' # CHR ''0'' #
        hex_digit (of_char c div 16) # hex_digit (of_char c mod 16) # rest"
      by (simp add: QuoteJSONChar_def)
    then show ?thesis
      by (simp only: string_literal_backslash escape_sequence_control [OF control(8)] parsed.case)
  next
    case plain
    then have "QuoteJSONChar c @ rest = c # rest"
      by (simp add: QuoteJSONChar_def)
    with string_literal_plain [OF plain(6) plain(7) plain(3) plain(5)] show ?thesis
      by simp
  qed
qed

lemma string_literal_QuoteJSONString:
  "string_literal (concat (map QuoteJSONChar s) @ dquote # rest) = Parsed s rest"
proof (induction s)
  case Nil
  show ?case by simp
next
  case (Cons c cs)
  have "string_literal (concat (map QuoteJSONChar (c # cs)) @ dquote # rest) =
      string_literal (QuoteJSONChar c @ (concat (map QuoteJSONChar cs) @ dquote # rest))"
    by simp
  also have "\<dots> = prepend [c] (string_literal (concat (map QuoteJSONChar cs) @ dquote # rest))"
    by (rule string_literal_QuoteJSONChar)
  finally show ?case
    by (simp add: Cons.IH)
qed

subsection \<open>Substitutions\<close>

lemma after_append: "after p (p @ s) = Some s"
  by (simp add: after_def)

lemma template_literal_dollar_brace:
  "template_literal a (CHR ''$'' # CHR ''{'' # s) =
     (case substitution a s of
        Parsed h rest \<Rightarrow> prepend [Hole h] (template_literal a rest)
      | Rejected \<Rightarrow> Rejected
      | Unrecognised \<Rightarrow> Unrecognised)"
  by (subst template_literal.simps) simp

lemma decimal_literal_index:
  "decimal_literal (decimal n @ CHR '']'' # r) = Some (n, CHR '']'' # r)"
  by (rule decimal_literal_decimal) (auto simp: decimal_digit_def)

lemma substitution_item:
  assumes "item_at a n = Value v"
  shows "substitution a (''a['' @ decimal n @ '']'' @ nullish_coalesce @ rest) = Parsed (Literal v) rest"
proof -
  have 1: "after ''a['' (''a['' @ decimal n @ '']'' @ nullish_coalesce @ rest) =
      Some (decimal n @ CHR '']'' # nullish_coalesce @ rest)"
    by (simp add: after_def)
  have 2: "after ('']'' @ nullish_coalesce) (CHR '']'' # nullish_coalesce @ rest) = Some rest"
    using after_append [of "'']'' @ nullish_coalesce" rest] by simp
  show ?thesis
    unfolding substitution_def
    by (simp only: 1 2 decimal_literal_index option.case prod.case assms item.case)
qed

lemma substitution_call:
  assumes "item_at a n = Callable f"
  shows "substitution a (''c=a['' @ decimal n @ ''],c(b)'' @ nullish_coalesce @ rest) = Parsed (Call f) rest"
proof -
  have 0: "after ''a['' (''c=a['' @ decimal n @ ''],c(b)'' @ nullish_coalesce @ rest) = None"
    by (simp add: after_def)
  have 1: "after ''c=a['' (''c=a['' @ decimal n @ ''],c(b)'' @ nullish_coalesce @ rest) =
      Some (decimal n @ CHR '']'' # '',c(b)'' @ nullish_coalesce @ rest)"
    by (simp add: after_def)
  have 2: "after (''],c(b)'' @ nullish_coalesce) (CHR '']'' # '',c(b)'' @ nullish_coalesce @ rest) = Some rest"
    using after_append [of "''],c(b)'' @ nullish_coalesce" rest] by simp
  show ?thesis
    unfolding substitution_def
    by (simp only: 0 1 2 decimal_literal_index option.case prod.case assms item.case)
qed

lemma not_identifier_part_question: "\<not> identifier_part CHR ''?''"
  by (simp add: identifier_part_def ID_Continue_def ID_Start_def)

lemma identifier_name_read:
  assumes "identifierRegExp_test name"
  shows "identifier_name (name @ nullish_coalesce @ rest) = Some (name, nullish_coalesce @ rest)"
proof -
  from assms obtain c cs where name: "name = c # cs" and c: "identifier_start c"
    and cs: "list_all identifier_part cs"
    by (cases name) auto
  have stop: "nullish_coalesce @ rest = CHR ''?'' # tl (nullish_coalesce @ rest)"
    by (simp add: nullish_coalesce_def)
  from cs have "takeWhile identifier_part (cs @ CHR ''?'' # tl (nullish_coalesce @ rest)) = cs"
    and "dropWhile identifier_part (cs @ CHR ''?'' # tl (nullish_coalesce @ rest)) =
      CHR ''?'' # tl (nullish_coalesce @ rest)"
    by (simp_all add: list_all_iff takeWhile_append2 dropWhile_append2 not_identifier_part_question)
  with stop have "takeWhile identifier_part (cs @ nullish_coalesce @ rest) = cs"
    and "dropWhile identifier_part (cs @ nullish_coalesce @ rest) = nullish_coalesce @ rest"
    by simp_all
  with name c show ?thesis
    by (simp add: identifier_name_def)
qed

lemma substitution_member_name:
  assumes "identifierRegExp_test name"
  shows "substitution a (''b.'' @ name @ nullish_coalesce @ rest) = Parsed (Member name) rest"
proof -
  have 0: "after ''a['' (''b.'' @ name @ nullish_coalesce @ rest) = None"
    by (simp add: after_def)
  have 1: "after ''c=a['' (''b.'' @ name @ nullish_coalesce @ rest) = None"
    by (simp add: after_def)
  have 2: "after ''b.'' (''b.'' @ name @ nullish_coalesce @ rest) = Some (name @ nullish_coalesce @ rest)"
    by (rule after_append)
  show ?thesis
    unfolding substitution_def
    by (simp only: 0 1 2 identifier_name_read [OF assms] after_append option.case prod.case)
qed

lemma substitution_member_key:
  assumes "computed_key (json @ CHR '']'' # nullish_coalesce @ rest) =
      Parsed key (CHR '']'' # nullish_coalesce @ rest)"
  shows "substitution a (''b['' @ json @ '']'' @ nullish_coalesce @ rest) = Parsed (Member key) rest"
proof -
  have 0: "after ''a['' (''b['' @ json @ '']'' @ nullish_coalesce @ rest) = None"
    by (simp add: after_def)
  have 1: "after ''c=a['' (''b['' @ json @ '']'' @ nullish_coalesce @ rest) = None"
    by (simp add: after_def)
  have 2: "after ''b.'' (''b['' @ json @ '']'' @ nullish_coalesce @ rest) = None"
    by (simp add: after_def)
  have 3: "after ''b['' (''b['' @ json @ '']'' @ nullish_coalesce @ rest) =
      Some (json @ CHR '']'' # nullish_coalesce @ rest)"
    by (simp add: after_def)
  have 4: "after ('']'' @ nullish_coalesce) (CHR '']'' # nullish_coalesce @ rest) = Some rest"
    using after_append [of "'']'' @ nullish_coalesce" rest] by simp
  show ?thesis
    unfolding substitution_def
    by (simp only: 0 1 2 3 4 assms option.case parsed.case)
qed

lemma computed_key_string:
  "computed_key (QuoteJSONString s @ r) = Parsed s r"
  by (simp add: computed_key_def QuoteJSONString_def string_literal_QuoteJSONString)

lemma computed_key_finite:
  "computed_key (Number_toString (Finite i) @ CHR '']'' # r) =
     Parsed (Number_toString (Finite i)) (CHR '']'' # r)"
proof (cases "i < 0")
  case True
  then have "int (nat (- i)) = - i" by simp
  with True show ?thesis
    by (simp add: computed_key_def decimal_literal_index)
next
  case False
  obtain c cs where h: "decimal (nat i) = c # cs" "decimal_digit c"
    using decimal_head by blast
  then have c: "c \<noteq> dquote" "c \<noteq> CHR ''-''" "c \<noteq> CHR ''n''"
    by (auto simp: decimal_digit_def)
  have "computed_key (decimal (nat i) @ CHR '']'' # r) =
      Parsed (Number_toString (Finite (int (nat i)))) (CHR '']'' # r)"
    using decimal_literal_index [of "nat i" r] c
    by (simp add: computed_key_def h after_def del: Number_toString.simps)
  with False show ?thesis
    by simp
qed

lemma finite_not_identifier: "\<not> identifierRegExp_test (Number_toString (Finite i))"
proof -
  obtain c cs where h: "decimal (nat (if i < 0 then - i else i)) = c # cs" "decimal_digit c"
    using decimal_head by blast
  then have "\<not> identifier_start c"
    by (auto simp: decimal_digit_def identifier_start_def ID_Start_def)
  moreover have "\<not> identifier_start CHR ''-''"
    by (simp add: identifier_start_def ID_Start_def)
  ultimately show ?thesis
    using h by (auto split: if_splits)
qed

lemma template_literal_item:
  assumes "item_at a index = item" and "item \<noteq> Value (Number NegInfinity)"
  shows "template_literal a (generated_item index item @ rest) =
           prepend (item_parts item) (template_literal a rest)"
proof -
  have name: "template_literal a (key_access name json @ rest) =
      prepend [Hole (Member name)] (template_literal a rest)"
    if "identifierRegExp_test name" for name json
    using that substitution_member_name [OF that, of a rest]
    by (simp add: key_access_def template_literal_dollar_brace)
  have key: "template_literal a (key_access name json @ rest) =
      prepend [Hole (Member name)] (template_literal a rest)"
    if "\<not> identifierRegExp_test name"
      and "computed_key (json @ CHR '']'' # nullish_coalesce @ rest) =
        Parsed name (CHR '']'' # nullish_coalesce @ rest)" for name json
    using that(1) substitution_member_key [OF that(2), of a]
    by (simp add: key_access_def template_literal_dollar_brace)
  show ?thesis
  proof (cases item)
    case (Callable f)
    with assms(1) substitution_call [of a index f rest] show ?thesis
      by (simp add: template_literal_dollar_brace)
  next
    case (Value v)
    show ?thesis
    proof (cases v)
      case Undefined
      with Value show ?thesis by (simp add: prepend_Nil)
    next
      case Null
      with Value show ?thesis by (simp add: prepend_Nil)
    next
      case (Boolean t)
      have "identifierRegExp_test (if t then ''true'' else ''false'')"
        by (simp add: identifier_start_def identifier_part_def ID_Start_def ID_Continue_def)
      from name [OF this] Value Boolean show ?thesis by simp
    next
      case (Number n)
      show ?thesis
      proof (cases n)
        case (Finite i)
        from key [OF finite_not_identifier computed_key_finite] Value Number Finite
        show ?thesis by (simp del: Number_toString.simps)
      next
        case NaN
        have "identifierRegExp_test ''NaN''"
          by (simp add: identifier_start_def identifier_part_def ID_Start_def ID_Continue_def)
        from name [OF this] Value Number NaN show ?thesis by simp
      next
        case PosInfinity
        have "identifierRegExp_test ''Infinity''"
          by (simp add: identifier_start_def identifier_part_def ID_Start_def ID_Continue_def)
        from name [OF this] Value Number PosInfinity show ?thesis by simp
      next
        case NegInfinity
        with Value Number assms(2) show ?thesis by simp
      qed
    next
      case (String s)
      show ?thesis
      proof (cases "identifierRegExp_test s")
        case True
        from name [OF True] Value String show ?thesis by simp
      next
        case False
        from key [OF False computed_key_string] Value String show ?thesis by simp
      qed
    next
      case (Object props str)
      with Value assms(1) substitution_item [of a index "Object props str" rest] show ?thesis
        by (simp add: template_literal_dollar_brace)
    qed
  qed
qed

subsection \<open>The whole body\<close>

lemma template_value_Cooked:
  "template_value b (map Cooked s @ parts) =
     (case template_value b parts of Inl e \<Rightarrow> Inl e | Inr r \<Rightarrow> Inr (s @ r))"
  by (induction s) (simp_all split: sum.splits)

lemma generated_reduce_body:
  "generated_reduce n items (body @ x) index strings = body @ generated_reduce n items x index strings"
  by (induction strings arbitrary: x index) simp_all

lemma generated_reduce_Cons:
  "generated_reduce n items [] index (string # strings) =
     replace_escapeCharacters string @
     (if int index \<noteq> int n - 1 then generated_item index (item_at items index) else []) @
     generated_reduce n items [] (Suc index) strings"
proof (cases "int index \<noteq> int n - 1")
  case True
  then show ?thesis
    using generated_reduce_body
      [of n items "replace_escapeCharacters string @ generated_item index (item_at items index)"
        "[]" "Suc index" strings]
    by simp
next
  case False
  then show ?thesis
    using generated_reduce_body [of n items "replace_escapeCharacters string" "[]" "Suc index" strings]
    by simp
qed

lemma item_at_not_NegInfinity:
  assumes "Value (Number NegInfinity) \<notin> set items"
  shows "item_at items index \<noteq> Value (Number NegInfinity)"
proof (cases "index < length items")
  case True
  with assms show ?thesis by (metis item_at_def nth_mem)
next
  case False
  then show ?thesis by (simp add: item_at_def)
qed

lemma template_literal_generated:
  assumes "\<forall>s\<in>set strings. backslash \<notin> set s \<and> CR \<notin> set s"
    and "Value (Number NegInfinity) \<notin> set items"
  shows "template_literal items (generated_reduce n items [] index strings @ rest) =
           prepend (template_parts n items index strings) (template_literal items rest)"
  using assms(1)
proof (induction strings arbitrary: index)
  case Nil
  show ?case by (simp add: prepend_Nil)
next
  case (Cons s ss)
  then have s: "backslash \<notin> set s" "CR \<notin> set s"
    and IH: "template_literal items (generated_reduce n items [] (Suc index) ss @ rest) =
      prepend (template_parts n items (Suc index) ss) (template_literal items rest)"
    by simp_all
  note item = template_literal_item [OF refl item_at_not_NegInfinity [OF assms(2)]]
  show ?case
  proof (cases "int index \<noteq> int n - 1")
    case True
    then show ?thesis
      by (simp only: generated_reduce_Cons template_parts.simps if_True append_assoc
          not_False_eq_True template_literal_fragment [OF s] item IH prepend_prepend)
  next
    case False
    then show ?thesis
      by (simp only: generated_reduce_Cons template_parts.simps if_False append_Nil append_assoc
          not_True_eq_False template_literal_fragment [OF s] IH prepend_prepend)
  qed
qed

lemma template_value_append:
  "template_value b (xs @ ys) =
     (case template_value b xs of
        Inl e \<Rightarrow> Inl e
      | Inr s \<Rightarrow> (case template_value b ys of Inl e \<Rightarrow> Inl e | Inr r \<Rightarrow> Inr (s @ r)))"
proof (induction xs)
  case Nil
  show ?case by (simp split: sum.splits)
next
  case (Cons x xs)
  then show ?case
    by (cases x) (simp_all split: sum.splits)
qed

lemma template_value_item_parts:
  "template_value b (item_parts item) = fallback_item item b"
proof (cases item)
  case (Callable f)
  then show ?thesis by (simp split: sum.splits)
next
  case (Value v)
  then show ?thesis
    by (cases v) (simp_all add: interpolate_def split: sum.splits)
qed

lemma template_value_map_Cooked: "template_value b (map Cooked s) = Inr s"
  by (induction s) simp_all

lemma fallback_reduce_template_value:
  "fallback_reduce n items b result index strings =
     (case template_value b (template_parts n items index strings) of
        Inl e \<Rightarrow> Inl e
      | Inr r \<Rightarrow> Inr (result @ r))"
proof (induction strings arbitrary: result index)
  case Nil
  show ?case by simp
next
  case (Cons s ss)
  let ?rest = "template_value b (template_parts n items (Suc index) ss)"
  show ?case
  proof (cases "int index \<noteq> int n - 1")
    case True
    let ?item = "fallback_item (item_at items index) b"
    from True have parts: "template_value b (template_parts n items index (s # ss)) =
        (case ?item of
           Inl e \<Rightarrow> Inl e
         | Inr t \<Rightarrow> (case ?rest of Inl e \<Rightarrow> Inl e | Inr r \<Rightarrow> Inr (s @ t @ r)))"
      by (cases ?item; cases ?rest)
        (simp_all add: template_value_append template_value_map_Cooked template_value_item_parts)
    from True have "fallback_reduce n items b result index (s # ss) =
        (case ?item of
           Inl e \<Rightarrow> Inl e
         | Inr t \<Rightarrow> (case ?rest of Inl e \<Rightarrow> Inl e | Inr r \<Rightarrow> Inr ((result @ s @ t) @ r)))"
      by (cases ?item) (simp_all add: Cons.IH)
    with parts show ?thesis
      by (cases ?item; cases ?rest) simp_all
  next
    case False
    then have parts: "template_value b (template_parts n items index (s # ss)) =
        (case ?rest of Inl e \<Rightarrow> Inl e | Inr r \<Rightarrow> Inr (s @ r))"
      by (simp add: template_value_append template_value_map_Cooked)
    from False have "fallback_reduce n items b result index (s # ss) =
        (case ?rest of Inl e \<Rightarrow> Inl e | Inr r \<Rightarrow> Inr ((result @ s) @ r))"
      by (simp add: Cons.IH)
    with parts show ?thesis
      by (cases ?rest) simp_all
  qed
qed

text \<open>
  Where no fragment holds a backslash or a carriage return and no item is the number
  \<open>-Infinity\<close>, the synthesised evaluator is the interpreted one.
\<close>

theorem strategies_agree:
  assumes "\<forall>s\<in>set strings. backslash \<notin> set s \<and> CR \<notin> set s"
    and "Value (Number NegInfinity) \<notin> set items"
  shows "bareTemplate_generated strings items = Evaluator (bareTemplate_fallback strings items)"
proof -
  let ?n = "length strings"
  let ?parts = "template_parts ?n items 0 strings"
  have code: "generated_code strings items = prelude @ generated_reduce ?n items [] 0 strings @ ''`}''"
    using generated_reduce_body [of ?n items prelude "[]" 0 strings]
    by (simp add: generated_code_def)
  have "template_literal items (generated_reduce ?n items [] 0 strings @ ''`}'') =
      prepend ?parts (template_literal items ''`}'')"
    by (rule template_literal_generated [OF assms])
  then have read: "template_literal items (generated_reduce ?n items [] 0 strings @ ''`}'') =
      Parsed ?parts ''}''"
    by simp
  have same: "(if typeof b \<noteq> ''object'' then Inl (TypeError errMsg) else template_value b ?parts) =
      bareTemplate_fallback strings items b" for b
    by (simp add: bareTemplate_fallback_def fallback_reduce_template_value split: sum.splits)
  have "bareTemplate_generated strings items =
      Evaluator (\<lambda>b. if typeof b \<noteq> ''object'' then Inl (TypeError errMsg)
                     else template_value b ?parts)"
    by (simp add: bareTemplate_generated_def code js_Function_prelude read returned_brace)
  also have "\<dots> = Evaluator (bareTemplate_fallback strings items)"
    using same by presburger
  finally show ?thesis .
qed

lemma compile_backslash: "bareTemplate True [[backslash]] [] = Raises SyntaxError"
  by (simp add: bareTemplate_def bareTemplate_generated_def generated_code_def js_Function_prelude
      escapeCharactersRegExp_def decimal_digit_def)

section \<open>Further facts about the two strategies and the method\<close>

text \<open>
  Under a falsy condition the tag function of \<open>if\<close> gives the receiver back whenever
  compiling returns; the interpreted strategy always returns.
\<close>

lemma if_tag_falsy:
  assumes "\<not> ToBoolean cond" and "bareTemplate synthesis strings items = Evaluator nextReducer"
  shows "if_tag synthesis this cond delimiter strings items = Evaluator this"
  using assms by (simp add: if_tag_def reduce_def)

lemma if_tag_falsy_fallback:
  assumes "\<not> ToBoolean cond"
  shows "if_tag False this cond delimiter strings items = Evaluator this"
  using assms by (simp add: if_tag_def reduce_def bareTemplate_def)

text \<open>
  A string or number key between two fragments: the interpreted strategy reads the
  property of that name, and the synthesised evaluator is the interpreted one unless a
  fragment holds a backslash or a carriage return or the key is \<open>-Infinity\<close>.
\<close>

lemma key_substitution_fallback:
  assumes "typeof b = ''object''"
    and "key = String k \<or> key = Number n \<and> k = Number_toString n"
  shows "bareTemplate_fallback [s0, s1] [Value key] b =
     (case get b k of
        Inl e \<Rightarrow> Inl e
      | Inr v \<Rightarrow> (case interpolate v of Inl e \<Rightarrow> Inl e | Inr t \<Rightarrow> Inr (s0 @ t @ s1)))"
  using assms
  by (auto simp: bareTemplate_fallback_def item_at_def split: sum.splits)

lemma key_substitution_generated:
  assumes "backslash \<notin> set s0 \<and> CR \<notin> set s0" and "backslash \<notin> set s1 \<and> CR \<notin> set s1"
    and "key = String k \<or> key = Number n \<and> n \<noteq> NegInfinity"
  shows "bareTemplate_generated [s0, s1] [Value key] =
     Evaluator (bareTemplate_fallback [s0, s1] [Value key])"
  using assms by (intro strategies_agree) auto

text \<open>The key \<open>x\<close> between two fragments, under both strategies.\<close>

lemma key_substitution_examples:
  "render (bareTemplate True [''a '', '' b''] [Value (String ''x'')]) (object []) = Returns ''a  b'' \<and>
   render (bareTemplate False [''a '', '' b''] [Value (String ''x'')]) (object []) = Returns ''a  b'' \<and>
   render (bareTemplate True [''a '', '' b''] [Value (String ''x'')]) (object [(''x'', Null)]) = Returns ''a  b'' \<and>
   render (bareTemplate False [''a '', '' b''] [Value (String ''x'')]) (object [(''x'', Null)]) = Returns ''a  b'' \<and>
   render (bareTemplate True [''a '', '' b''] [Value (String ''x'')]) (object [(''x'', String ''VAL'')]) = Returns ''a VAL b'' \<and>
   render (bareTemplate False [''a '', '' b''] [Value (String ''x'')]) (object [(''x'', String ''VAL'')]) = Returns ''a VAL b''"
  by code_simp

text \<open>
  A template with no items applied to \<open>null\<close>: the fragments, one after the other.
\<close>

lemma fallback_reduce_no_items:
  "fallback_reduce n [] b result index strings = Inr (result @ concat strings)"
  by (induction strings arbitrary: result index) (simp_all add: item_at_def)

lemma no_items_fallback:
  "bareTemplate_fallback strings [] Null = Inr (concat strings)"
  by (simp add: bareTemplate_fallback_def fallback_reduce_no_items)

lemma no_items_generated:
  assumes "\<forall>s\<in>set strings. backslash \<notin> set s \<and> CR \<notin> set s"
  shows "render (bareTemplate True strings []) Null = Returns (concat strings)"
  using strategies_agree [OF assms, of "[]"]
  by (simp add: bareTemplate_def no_items_fallback)

text \<open>
  A carriage return of a fragment is copied into the program, and the host reads it as a
  line feed.
\<close>

lemma carriage_return_read_as_line_feed:
  "render (bareTemplate True [[CR]] []) (object []) = Returns [LF] \<and>
   render (bareTemplate False [[CR]] []) (object []) = Returns [CR]"
  by code_simp

text \<open>
  The tag function of \<open>if\<close> on the template \<open>ABC\<close> and the fragment \<open>123\<close>:
  with a true condition, with a false one, and with the empty delimiter.
\<close>

lemma readme_if_examples:
  "render (if_tag True (bareTemplate_fallback [''ABC''] []) (Boolean True) '' '' [''123''] []) (object [])
     = Returns ''ABC 123'' \<and>
   render (if_tag True (bareTemplate_fallback [''ABC''] []) (Boolean False) '' '' [''123''] []) (object [])
     = Returns ''ABC'' \<and>
   render (if_tag False (bareTemplate_fallback [''ABC''] []) (Boolean True) [] [''123''] []) (object [])
     = Returns ''ABC123''"
  by code_simp

text \<open>
  The guard against a context that is no object: the interpreted evaluator always has it,
  and the synthesised evaluator has it wherever it is the interpreted one.
\<close>

lemma invalid_context_fallback:
  assumes "typeof x \<noteq> ''object''"
  shows "bareTemplate_fallback strings items x = Inl (TypeError errMsg)"
  using assms by (simp add: bareTemplate_fallback_def)

lemma invalid_context_generated:
  assumes "\<forall>s\<in>set strings. backslash \<notin> set s \<and> CR \<notin> set s"
    and "Value (Number NegInfinity) \<notin> set items"
    and "typeof x \<noteq> ''object''"
  shows "render (bareTemplate True strings items) x = Throws (TypeError errMsg)"
  using strategies_agree [OF assms(1,2)] assms(3)
  by (simp add: bareTemplate_def bareTemplate_fallback_def)

text \<open>
  The program text for the fragment of a backslash, a backtick and \<open>},b=>"x"//\<close>: the
  template literal ends after one character, and the rest of the fragment follows it.
\<close>

lemma template_literal_ended_by_fragment:
  "generated_code [backslash # CHR ''`'' # ''},b=>'' @ [dquote] @ ''x'' @ [dquote] @ ''//''] [] =
     prelude @ [backslash, backslash, CHR ''`''] @ ''},b=>'' @ [dquote] @ ''x'' @ [dquote] @ ''//`}'' \<and>
   template_literal []
       ([backslash, backslash, CHR ''`''] @ ''},b=>'' @ [dquote] @ ''x'' @ [dquote] @ ''//`}'') =
     Parsed [Cooked backslash] (''},b=>'' @ [dquote] @ ''x'' @ [dquote] @ ''//`}'')"
  by (simp add: generated_code_def escapeCharactersRegExp_def decimal_digit_def)

section \<open>The claims\<close>

text \<open>
  C1.  For every fragments/items pair with one fragment more than items and every
  object-like context, the evaluator of the code-synthesising strategy and the evaluator
  of the interpreted strategy return the same string.  The library does not do this: it
  escapes the backtick and the dollar sign of a fragment but not the backslash, so the
  host reads a backslash of a fragment as the start of an escape sequence.  The fragment
  of a backslash and the letter n renders as a line feed under synthesis and as itself
  under interpretation; a fragment that is one backslash, before the key \<open>x\<close>, turns the
  substitution into plain text.
\<close>

theorem C1_strategies_differ:
  "render (bareTemplate True [[backslash, CHR ''n'']] []) (object []) = Returns [LF] \<and>
   render (bareTemplate False [[backslash, CHR ''n'']] []) (object []) =
     Returns [backslash, CHR ''n''] \<and>
   render (bareTemplate True [[backslash], []] [Value (String ''x'')])
     (object [(''x'', String ''VAL'')]) = Returns (''${b.x??'' @ [dquote, dquote] @ ''}'') \<and>
   render (bareTemplate False [[backslash], []] [Value (String ''x'')])
     (object [(''x'', String ''VAL'')]) = Returns (backslash # ''VAL'')"
  by code_simp

text \<open>
  C2.  When \<open>if\<close> returns a tag function and the condition is falsy, applying the tag
  function never compiles the fragments and items.  The library compiles them first, as the
  argument of \<open>reduce\<close>, and tests the condition afterwards: under synthesis the
  compiler's syntax error for a fragment that is one backslash is thrown although the
  condition is \<open>false\<close>.
\<close>

theorem C2_compiled_before_gate:
  "if_tag True this (Boolean False) delimiter [[backslash]] [] = Raises SyntaxError"
  by (simp add: if_tag_def compile_backslash)

text \<open>
  C3, as amended.  A wrapped literal never consults the context: the fragments
  \<open>["sum=", ""]\<close> with the item \<open>Object(3)\<close> render as \<open>sum=3\<close> for every context
  that passes the \<open>typeof\<close> guard (\<open>null\<close> too), under both strategies.
\<close>

theorem C3_wrapped_literal:
  assumes "typeof context = ''object''"
  shows "render (template synthesis False [''sum='', []] [Value (wrapper (Number (Finite 3)))]) context
     = Returns ''sum=3''"
proof -
  let ?items = "[Value (wrapper (Number (Finite 3)))]"
  have "bareTemplate_generated [''sum='', []] ?items = Evaluator (bareTemplate_fallback [''sum='', []] ?items)"
    by (rule strategies_agree) (simp_all add: wrapper_def)
  then have "bareTemplate synthesis [''sum='', []] ?items = Evaluator (bareTemplate_fallback [''sum='', []] ?items)"
    by (simp add: bareTemplate_def)
  moreover have "bareTemplate_fallback [''sum='', []] ?items context = Inr ''sum=3''"
    using assms
    by (simp add: bareTemplate_fallback_def wrapper_def item_at_def interpolate_def decimal.simps)
  ultimately show ?thesis
    by (simp add: template_def)
qed

theorem C3_wrapped_literal_witness:
  "typeof (object []) = ''object'' \<and>
   render (template True False [''sum='', []] [Value (wrapper (Number (Finite 3)))]) (object [])
     = Returns ''sum=3'' \<and>
   render (template False False [''sum='', []] [Value (wrapper (Number (Finite 3)))]) Null
     = Returns ''sum=3''"
  using C3_wrapped_literal [of "object []" True] C3_wrapped_literal [of Null False]
  by (simp add: object_def)

text \<open>
  With the one fragment \<open>["sum="]\<close> of the claim as stated there is no item position:
  the item after the last fragment is never read, and the result is \<open>sum=\<close>.
\<close>

theorem C3_single_fragment_counterexample:
  "render (template True False [''sum=''] [Value (wrapper (Number (Finite 3)))]) (object [])
     \<noteq> Returns ''sum=3'' \<and>
   render (template False False [''sum=''] [Value (wrapper (Number (Finite 3)))]) (object [])
     \<noteq> Returns ''sum=3'' \<and>
   render (template True False [''sum=''] [Value (wrapper (Number (Finite 3)))]) (object [])
     = Returns ''sum='' \<and>
   render (template False False [''sum=''] [Value (wrapper (Number (Finite 3)))]) (object [])
     = Returns ''sum=''"
  by code_simp

text \<open>
  C4.  Before a fragment is put into the program, exactly the backtick and the dollar sign
  are escaped, every other character is left as it is, and that is enough for the fragment
  to appear verbatim in the output, whatever the fragment holds.  The library does escape
  exactly those two, and it is not enough: the backslash of a fragment is copied into the
  program as it is, where the host reads it as the start of an escape sequence.  The
  fragment of a backslash and the letter n is written unchanged and renders as a line
  feed; a fragment that is one backslash takes the first character of the fragment after
  it, so the fragment \<open>n\<close> behind it (the item between them is \<open>null\<close>) does not
  appear either.  The interpreted strategy returns the fragments as they are.
\<close>

theorem C4_backslash_copied:
  "replace_escapeCharacters [backslash, CHR ''n''] = [backslash, CHR ''n''] \<and>
   generated_code [[backslash, CHR ''n'']] [] = prelude @ [backslash, CHR ''n''] @ ''`}'' \<and>
   render (bareTemplate True [[backslash, CHR ''n'']] []) (object []) = Returns [LF] \<and>
   render (bareTemplate False [[backslash, CHR ''n'']] []) (object []) =
     Returns [backslash, CHR ''n''] \<and>
   render (bareTemplate True [[backslash], ''n''] [Value Null]) (object []) = Returns [LF] \<and>
   render (bareTemplate False [[backslash], ''n''] [Value Null]) (object []) =
     Returns [backslash, CHR ''n'']"
  by code_simp



text \<open>
  C6.  Under a falsy condition \<open>if\<close> gives the receiver back, with a ready-made
  continuation and through the tag function alike.  Through the tag function the library
  does not, where compiling throws: the compiler runs before the condition is tested (the
  defect of C2), so for a fragment that is one backslash the call ends with the compiler's
  syntax error and returns nothing.
\<close>

theorem C6_tag_function_throws:
  "\<exists>tag. template_if True (Function T) (Boolean False) Omitted Omitted = Inr (TagFunction tag) \<and>
     tag [[backslash]] [] = Raises SyntaxError \<and> tag [[backslash]] [] \<noteq> Evaluator T"
  by (simp add: template_if_def if_tag_def compile_backslash)

text \<open>
  C7.  A continuation behind a falsy condition is never called at render time: the
  template \<open>if\<close> returns is the receiver, so rendering it is rendering the receiver,
  whatever the continuation would do (raise on every call, for one).
\<close>

theorem C7_falsy_continuation_not_called:
  assumes "\<not> ToBoolean cond"
  shows "template_if synthesis (Function T) cond delimiter (Function C) = Inr (Template T) \<and>
     render (Evaluator T) x = (case T x of Inl e \<Rightarrow> Throws e | Inr s \<Rightarrow> Returns s)"
  using assms by (cases delimiter) (simp_all add: template_if_def reduce_def)

theorem C7_falsy_continuation_not_called_witness:
  "\<not> ToBoolean (Boolean False) \<and>
   template_if False (Function (\<lambda>x. Inr ''ABC'')) (Boolean False) (Text '' '')
       (Function (\<lambda>x. Inl (Thrown ''never'')))
     = Inr (Template (\<lambda>x. Inr ''ABC'')) \<and>
   render (Evaluator (\<lambda>x. Inr ''ABC'')) (object []) = Returns ''ABC''"
  using C7_falsy_continuation_not_called
    [of "Boolean False" False "\<lambda>x. Inr ''ABC''" "Text '' ''" "\<lambda>x. Inl (Thrown ''never'')" "object []"]
  by simp

text \<open>
  C8.  Under both strategies an evaluator the compiler returned throws the type error
  \<open>insert must be an object.\<close> for every context whose \<open>typeof\<close> is not
  \<open>object\<close>, at every call.  Under synthesis the library does not, for a fragment of a
  backslash, a backtick and the text \<open>},b=>"x"//\<close>: the backslash is copied, the
  backslash the library puts before the backtick is read with it as one escaped
  backslash, the backtick ends the template literal, and the rest of the fragment is
  program text.  The synthesised function returns the second arrow function, which has
  no guard: the evaluator returns \<open>x\<close> for a number and for a string.  The interpreted
  strategy throws for both.
\<close>

theorem C8_guard_lost:
  "render (bareTemplate True [backslash # CHR ''`'' # ''},b=>'' @ [dquote] @ ''x'' @ [dquote] @ ''//''] [])
     (Number (Finite 5)) = Returns ''x'' \<and>
   render (bareTemplate True [backslash # CHR ''`'' # ''},b=>'' @ [dquote] @ ''x'' @ [dquote] @ ''//''] [])
     (String ''text'') = Returns ''x'' \<and>
   render (bareTemplate False [backslash # CHR ''`'' # ''},b=>'' @ [dquote] @ ''x'' @ [dquote] @ ''//''] [])
     (Number (Finite 5)) = Throws (TypeError errMsg) \<and>
   render (bareTemplate False [backslash # CHR ''`'' # ''},b=>'' @ [dquote] @ ''x'' @ [dquote] @ ''//''] [])
     (String ''text'') = Throws (TypeError errMsg)"
  by code_simp

text \<open>
  C9.  A string or number key \<open>k\<close> contributes the string of \<open>context[k]\<close>, and
  nothing when that is \<open>undefined\<close> or \<open>null\<close>.  Under synthesis the library does
  not do this for the key \<open>-Infinity\<close>: its text is no identifier, so the key is written
  with \<open>JSON.stringify\<close>, which gives \<open>null\<close> for a number that is not finite, and
  the program reads \<open>b[null]\<close>.  The interpreted strategy reads \<open>context[-Infinity]\<close>.
\<close>

theorem C9_negative_infinity_key:
  "render (bareTemplate True [[], []] [Value (Number NegInfinity)])
      (object [(''null'', String ''other''), (''-Infinity'', String ''mine'')]) = Returns ''other'' \<and>
   render (bareTemplate False [[], []] [Value (Number NegInfinity)])
      (object [(''null'', String ''other''), (''-Infinity'', String ''mine'')]) = Returns ''mine''"
  by code_simp

text \<open>
  C10.  \<open>null\<close> passes the guard of both strategies, and a template with no items
  applied to \<open>null\<close> returns its fragment.  Under synthesis the library does not return
  the fragment when it holds a backslash (the defect of C1): the fragment of a backslash
  and the letter n gives a line feed.
\<close>

theorem C10_null_context:
  "render (bareTemplate True [[backslash, CHR ''n'']] []) Null = Returns [LF] \<and>
   render (bareTemplate False [[backslash, CHR ''n'']] []) Null = Returns [backslash, CHR ''n'']"
  by code_simp

end
